theory Spec2Isabelle
  imports Complex_Main "HOL-Library.Word" "HOL-Library.Sublist"
begin

unbundle bit_operations_syntax

section \<open>The DNS client: record cache, TTL decay and query correlation\<close>

text \<open>
  A shallow embedding of \<^verbatim>\<open>client.py\<close>: the type registry \<^verbatim>\<open>DNSTypes\<close>, the
  cache \<^verbatim>\<open>RRTable\<close> with its decay pass, and \<^verbatim>\<open>handle_request\<close>. Every method that
  runs under \<^verbatim>\<open>self.lock\<close> is one atomic function on the table; the interleaving of
  the decay thread with the foreground thread is a sequence of such functions.
\<close>

subsection \<open>Python values and exceptions\<close>

text \<open>
  The values \<^verbatim>\<open>json.loads\<close> can return. A float is one of the rationals (every finite
  double is one) or a non-finite value. An object is its list of key/value pairs with
  distinct keys; \<^verbatim>\<open>d.get(k, default)\<close> reads it with \<open>map_of\<close>.
\<close>

datatype pyfloat = Finite rat | PosInf | NegInf | NaN

datatype pyval =
    PNone
  | PBool bool
  | PInt int
  | PFloat pyfloat
  | PStr string
  | PList "pyval list"
  | PDict "(string \<times> pyval) list"

datatype py_exn =
    KeyboardInterrupt
  | SystemExit
  | SocketTimeout
  | OSError
  | UnicodeDecodeError
  | JSONDecodeError
  | TypeError
  | ValueError
  | OverflowError
  | AttributeError

text \<open>
  \<^verbatim>\<open>except Exception\<close> catches every class but the two that derive from
  \<^verbatim>\<open>BaseException\<close> directly.
\<close>

fun is_Exception :: "py_exn \<Rightarrow> bool" where
  "is_Exception KeyboardInterrupt = False"
| "is_Exception SystemExit = False"
| "is_Exception _ = True"

subsection \<open>Constants\<close>

definition QUERY_FLAG :: string where
  "QUERY_FLAG = ''0000''"

definition RESP_FLAG :: string where
  "RESP_FLAG = ''0001''"

definition NOT_FOUND :: string where
  "NOT_FOUND = ''Record not found''"

subsection \<open>DNSTypes\<close>

text \<open>A dict literal or comprehension: the pairs are stored one after the other.\<close>

definition dict_of :: "('k \<times> 'v) list \<Rightarrow> ('k \<rightharpoonup> 'v)" where
  "dict_of kvs = fold (\<lambda>(k, v) m. m(k \<mapsto> v)) kvs Map.empty"

definition name_to_code_items :: "(string \<times> int) list" where
  "name_to_code_items = [(''A'', 8), (''AAAA'', 4), (''CNAME'', 2), (''NS'', 1)]"

definition name_to_code :: "string \<rightharpoonup> int" where
  "name_to_code = dict_of name_to_code_items"

definition code_to_name :: "int \<rightharpoonup> string" where
  "code_to_name = dict_of (map (\<lambda>(name, code). (code, name)) name_to_code_items)"

definition get_type_code :: "string \<Rightarrow> int option" where
  "get_type_code type_name = name_to_code type_name"

definition get_type_name :: "int \<Rightarrow> string option" where
  "get_type_name type_code = code_to_name type_code"

subsection \<open>RRTable\<close>

text \<open>
  One cached record: the dict that \<^verbatim>\<open>add_record\<close> appends. The fields \<^verbatim>\<open>name\<close>,
  \<^verbatim>\<open>type\<close> and \<^verbatim>\<open>result\<close> hold whatever value the caller passed;
  \<^verbatim>\<open>ttl\<close> is an integer or \<^verbatim>\<open>None\<close>.
\<close>

record rr =
  record_number :: nat
  rr_name :: pyval
  rr_type :: pyval
  rr_result :: pyval
  ttl :: "int option"
  static :: int

text \<open>The table: \<^verbatim>\<open>self.records\<close> and the insert counter \<^verbatim>\<open>self.record_number\<close>.\<close>

record RRTable =
  records :: "rr list"
  table_record_number :: nat

definition RRTable_init :: RRTable where
  "RRTable_init = \<lparr>records = [], table_record_number = 0\<rparr>"

definition add_record :: "RRTable \<Rightarrow> pyval \<Rightarrow> pyval \<Rightarrow> pyval \<Rightarrow> int \<Rightarrow> int \<Rightarrow> RRTable" where
  "add_record t name rtype result ttl_arg static_arg =
     \<lparr>records = records t @
        [\<lparr>record_number = table_record_number t,
          rr_name = name,
          rr_type = rtype,
          rr_result = result,
          ttl = (if static_arg = 0 then Some ttl_arg else None),
          static = static_arg\<rparr>],
      table_record_number = table_record_number t + 1\<rparr>"

text \<open>
  \<^verbatim>\<open>get_record\<close> is called with two strings; a field equals a string only if it is
  that string. The method returns the record found and leaves the table as it is.
\<close>

fun get_record_loop :: "rr list \<Rightarrow> string \<Rightarrow> string \<Rightarrow> rr option" where
  "get_record_loop [] name rtype = None"
| "get_record_loop (r # rs) name rtype =
     (if rr_name r = PStr name \<and> rr_type r = PStr rtype then
        (if static r = 1 \<or> (case ttl r of None \<Rightarrow> False | Some v \<Rightarrow> v > 0) then Some r
         else get_record_loop rs name rtype)
      else get_record_loop rs name rtype)"

definition get_record :: "RRTable \<Rightarrow> string \<Rightarrow> string \<Rightarrow> rr option \<times> RRTable" where
  "get_record t name rtype = (get_record_loop (records t) name rtype, t)"

text \<open>
  What is printed: a fixed line of text, or the row of one record (its six fields,
  \<^verbatim>\<open>None\<close> for an absent ttl).
\<close>

datatype out_line = Line string | Row rr

definition display_table :: "RRTable \<Rightarrow> out_line list \<times> RRTable" where
  "display_table t =
     (Line ''record_no,name,type,result,ttl,static'' # map Row (records t), t)"

subsection \<open>The decay pass\<close>

text \<open>
  Comparing and subtracting raise \<^verbatim>\<open>TypeError\<close> on \<^verbatim>\<open>None\<close>; the conditions of
  the source test \<^verbatim>\<open>is not None\<close> first, and \<^verbatim>\<open>and\<close> evaluates from the left.
\<close>

definition py_gt :: "int option \<Rightarrow> int \<Rightarrow> py_exn + bool" where
  "py_gt a b = (case a of None \<Rightarrow> Inl TypeError | Some v \<Rightarrow> Inr (v > b))"

definition py_le :: "int option \<Rightarrow> int \<Rightarrow> py_exn + bool" where
  "py_le a b = (case a of None \<Rightarrow> Inl TypeError | Some v \<Rightarrow> Inr (v \<le> b))"

definition py_sub :: "int option \<Rightarrow> int \<Rightarrow> py_exn + int option" where
  "py_sub a b = (case a of None \<Rightarrow> Inl TypeError | Some v \<Rightarrow> Inr (Some (v - b)))"

text \<open>The first loop of \<^verbatim>\<open>__decrement_ttl\<close>, one record at a time.\<close>

definition decrement_rec :: "rr \<Rightarrow> py_exn + rr" where
  "decrement_rec r =
     (case (if static r = 0 \<and> ttl r \<noteq> None then py_gt (ttl r) 0 else Inr False) of
        Inl e \<Rightarrow> Inl e
      | Inr True \<Rightarrow> (case py_sub (ttl r) 1 of Inl e \<Rightarrow> Inl e | Inr v \<Rightarrow> Inr (r\<lparr>ttl := v\<rparr>))
      | Inr False \<Rightarrow> Inr r)"

fun decrement_loop :: "rr list \<Rightarrow> py_exn + rr list" where
  "decrement_loop [] = Inr []"
| "decrement_loop (r # rs) =
     (case decrement_rec r of
        Inl e \<Rightarrow> Inl e
      | Inr r' \<Rightarrow> (case decrement_loop rs of Inl e \<Rightarrow> Inl e | Inr rs' \<Rightarrow> Inr (r' # rs')))"

text \<open>\<^verbatim>\<open>__remove_expired_records\<close>: the loop that fills \<^verbatim>\<open>kept\<close>, then the renumbering.\<close>

fun kept_loop :: "rr list \<Rightarrow> rr list \<Rightarrow> py_exn + rr list" where
  "kept_loop [] kept = Inr kept"
| "kept_loop (r # rs) kept =
     (case (if static r = 0 \<and> ttl r \<noteq> None then py_le (ttl r) 0 else Inr False) of
        Inl e \<Rightarrow> Inl e
      | Inr True \<Rightarrow> kept_loop rs kept
      | Inr False \<Rightarrow> kept_loop rs (kept @ [r]))"

fun renumber_loop :: "nat \<Rightarrow> rr list \<Rightarrow> rr list" where
  "renumber_loop i [] = []"
| "renumber_loop i (r # rs) = r\<lparr>record_number := i\<rparr> # renumber_loop (Suc i) rs"

definition remove_expired_records :: "RRTable \<Rightarrow> py_exn + RRTable" where
  "remove_expired_records t =
     (case kept_loop (records t) [] of
        Inl e \<Rightarrow> Inl e
      | Inr kept \<Rightarrow>
          Inr \<lparr>records = renumber_loop 0 kept, table_record_number = length kept\<rparr>)"

text \<open>
  One pass of the \<^verbatim>\<open>while True\<close> loop of \<^verbatim>\<open>__decrement_ttl\<close>, the part under the
  lock. The loop itself never returns; \<open>decay_ticks n\<close> is its first \<open>n\<close> passes.
\<close>

definition decay_tick :: "RRTable \<Rightarrow> py_exn + RRTable" where
  "decay_tick t =
     (case decrement_loop (records t) of
        Inl e \<Rightarrow> Inl e
      | Inr rs \<Rightarrow> remove_expired_records (t\<lparr>records := rs\<rparr>))"

fun decay_ticks :: "nat \<Rightarrow> RRTable \<Rightarrow> py_exn + RRTable" where
  "decay_ticks 0 t = Inr t"
| "decay_ticks (Suc n) t =
     (case decay_tick t of Inl e \<Rightarrow> Inl e | Inr t' \<Rightarrow> decay_ticks n t')"

subsection \<open>handle_request\<close>

text \<open>
  What \<^verbatim>\<open>handle_request\<close> takes from outside: the clock, the socket and two library
  functions. \<open>now_ms\<close> is \<^verbatim>\<open>int(time.time() * 1000)\<close>; \<open>send_result\<close> is the exception
  \<^verbatim>\<open>send_message\<close> raises, if any; \<open>recv_result\<close> is the exception
  \<^verbatim>\<open>receive_message\<close> raises or the text it returns; \<open>loads\<close> is \<^verbatim>\<open>json.loads\<close>
  (\<open>None\<close> where it raises); \<open>int_of_str\<close> is \<^verbatim>\<open>int\<close> on a string (\<open>None\<close> where it
  raises \<^verbatim>\<open>ValueError\<close>).
\<close>

record env =
  now_ms :: int
  send_result :: "py_exn option"
  recv_result :: "py_exn + string"
  loads :: "string \<Rightarrow> pyval option"
  int_of_str :: "string \<Rightarrow> int option"

text \<open>The cache, the lines printed so far and the packets handed to the socket.\<close>

record world =
  table :: RRTable
  printed :: "out_line list"
  sent :: "pyval list"

definition dict_get :: "(string \<times> pyval) list \<Rightarrow> string \<Rightarrow> pyval \<Rightarrow> pyval" where
  "dict_get kvs k dflt = (case map_of kvs k of None \<Rightarrow> dflt | Some v \<Rightarrow> v)"

text \<open>
  \<^verbatim>\<open>v == n\<close> for an integer \<open>n\<close>: numbers compare by value (\<^verbatim>\<open>True\<close> is 1),
  anything else differs.
\<close>

fun py_eq_int :: "pyval \<Rightarrow> int \<Rightarrow> bool" where
  "py_eq_int (PInt m) n = (m = n)"
| "py_eq_int (PBool b) n = ((if b then 1 else 0) = n)"
| "py_eq_int (PFloat (Finite q)) n = (q = of_int n)"
| "py_eq_int _ n = False"

text \<open>\<^verbatim>\<open>int(v)\<close>: a float is truncated towards zero.\<close>

fun py_int :: "env \<Rightarrow> pyval \<Rightarrow> py_exn + int" where
  "py_int env (PInt n) = Inr n"
| "py_int env (PBool b) = Inr (if b then 1 else 0)"
| "py_int env (PFloat (Finite q)) = Inr (if 0 \<le> q then \<lfloor>q\<rfloor> else \<lceil>q\<rceil>)"
| "py_int env (PFloat NaN) = Inl ValueError"
| "py_int env (PFloat PosInf) = Inl OverflowError"
| "py_int env (PFloat NegInf) = Inl OverflowError"
| "py_int env (PStr s) = (case int_of_str env s of None \<Rightarrow> Inl ValueError | Some n \<Rightarrow> Inr n)"
| "py_int env PNone = Inl TypeError"
| "py_int env (PList xs) = Inl TypeError"
| "py_int env (PDict kvs) = Inl TypeError"

definition print_line :: "world \<Rightarrow> string \<Rightarrow> world" where
  "print_line w s = w\<lparr>printed := printed w @ [Line s]\<rparr>"

text \<open>\<^verbatim>\<open>rr.display_table()\<close>, its lines written to the output.\<close>

definition show_table :: "world \<Rightarrow> world" where
  "show_table w =
     (case display_table (table w) of
        (ls, t') \<Rightarrow> w\<lparr>table := t', printed := printed w @ ls\<rparr>)"

text \<open>
  The result is the exception that leaves the call, if any, and the world after it. The
  call is the foreground thread's own sequence of steps; a tick of the decay thread that
  falls between two of them is a step of its own, not part of this function.
  \<^verbatim>\<open>ans.get\<close> raises \<^verbatim>\<open>AttributeError\<close> unless \<^verbatim>\<open>ans\<close> is a dict, and the first
  such call is the one for \<^verbatim>\<open>"result"\<close>.
\<close>

definition handle_request :: "env \<Rightarrow> world \<Rightarrow> string \<Rightarrow> string \<Rightarrow> py_exn option \<times> world" where
  "handle_request env w hostname qtype_name =
     (case get_record (table w) hostname qtype_name of
        (Some hit, t1) \<Rightarrow> (None, show_table (w\<lparr>table := t1\<rparr>))
      | (None, t1) \<Rightarrow>
          (let w1 = w\<lparr>table := t1\<rparr>;
               tx_id = now_ms env AND 0xFFFFFFFF;
               packet = PDict [(''id'', PInt tx_id), (''flag'', PStr QUERY_FLAG),
                               (''question'', PDict [(''name'', PStr hostname),
                                                     (''type'', PStr qtype_name)])]
           in case send_result env of
                Some e \<Rightarrow> (Some e, w1)
              | None \<Rightarrow>
                  (let w2 = w1\<lparr>sent := sent w1 @ [packet]\<rparr>
                   in case recv_result env of
                        Inl e \<Rightarrow>
                          (if e = KeyboardInterrupt then (Some e, w2)
                           else if is_Exception e then
                             (None, print_line w2
                                ''No response from Local DNS (timeout or socket error)'')
                           else (Some e, w2))
                      | Inr data \<Rightarrow>
                          (case loads env data of
                             None \<Rightarrow> (Some JSONDecodeError, w2)
                           | Some resp \<Rightarrow>
                               (case resp of
                                  PDict kvs \<Rightarrow>
                                    (if \<not> py_eq_int (dict_get kvs ''id'' PNone) tx_id
                                        \<or> dict_get kvs ''flag'' PNone \<noteq> PStr RESP_FLAG then
                                       (None, print_line w2 ''mismatched response; ignoring.'')
                                     else
                                       (case dict_get kvs ''answer'' (PDict []) of
                                          PDict ans \<Rightarrow>
                                            (let result = dict_get ans ''result'' (PStr NOT_FOUND)
                                             in if result \<noteq> PStr NOT_FOUND then
                                                  (case py_int env (dict_get ans ''ttl'' (PInt 60)) of
                                                     Inl e \<Rightarrow> (Some e, w2)
                                                   | Inr ttl_v \<Rightarrow>
                                                       (None, show_table (w2\<lparr>table :=
                                                          add_record (table w2)
                                                            (dict_get ans ''name'' (PStr hostname))
                                                            (dict_get ans ''type'' (PStr qtype_name))
                                                            result ttl_v 0\<rparr>)))
                                                else (None, show_table w2))
                                        | _ \<Rightarrow> (Some AttributeError, w2)))
                                | _ \<Rightarrow>
                                    (None, print_line w2 ''mismatched response; ignoring.''))))))"

subsection \<open>The specification's reading of the cache\<close>

text \<open>
  The decay tick as the specification words it: decrement every non-static record whose
  ttl is present and positive, then remove every non-static record whose ttl is present
  and at most 0, then number the survivors by position and set the counter to their
  count.
\<close>

definition spec_decrement :: "rr \<Rightarrow> rr" where
  "spec_decrement r =
     (case ttl r of
        None \<Rightarrow> r
      | Some v \<Rightarrow> if static r = 0 \<and> 0 < v then r\<lparr>ttl := Some (v - 1)\<rparr> else r)"

definition spec_expired :: "rr \<Rightarrow> bool" where
  "spec_expired r = (static r = 0 \<and> (case ttl r of None \<Rightarrow> False | Some v \<Rightarrow> v \<le> 0))"

definition spec_renumber :: "rr list \<Rightarrow> rr list" where
  "spec_renumber rs = map (\<lambda>(i, r). r\<lparr>record_number := i\<rparr>) (enumerate 0 rs)"

definition spec_tick :: "RRTable \<Rightarrow> RRTable" where
  "spec_tick t =
     (let survivors = filter (\<lambda>r. \<not> spec_expired r) (map spec_decrement (records t))
      in \<lparr>records = spec_renumber survivors, table_record_number = length survivors\<rparr>)"

text \<open>Valid for lookup: static, or a ttl that is present and positive.\<close>

definition spec_valid_for_lookup :: "rr \<Rightarrow> bool" where
  "spec_valid_for_lookup r =
     (static r = 1 \<or> (case ttl r of None \<Rightarrow> False | Some v \<Rightarrow> 0 < v))"

text \<open>
  Dense numbering: the record at position \<open>i\<close> has number \<open>i\<close>, and the counter is
  the number of records.
\<close>

definition dense :: "RRTable \<Rightarrow> bool" where
  "dense t =
     (map record_number (records t) = [0..<length (records t)]
      \<and> table_record_number t = length (records t))"

text \<open>
  The tables the program can reach: the one \<^verbatim>\<open>__init__\<close> builds, and what the four
  operations make of a reachable one.
\<close>

inductive reachable :: "RRTable \<Rightarrow> bool" where
  reach_init: "reachable RRTable_init"
| reach_add: "reachable t \<Longrightarrow> reachable (add_record t name rtype result ttl_arg static_arg)"
| reach_get: "reachable t \<Longrightarrow> reachable (snd (get_record t name rtype))"
| reach_display: "reachable t \<Longrightarrow> reachable (snd (display_table t))"
| reach_tick: "reachable t \<Longrightarrow> decay_tick t = Inr t' \<Longrightarrow> reachable t'"

text \<open>
  The records after one tick and after \<open>n\<close> ticks, their numbers left aside, and a
  record with its number set to 0.
\<close>

definition decay_step :: "rr list \<Rightarrow> rr list" where
  "decay_step rs = filter (\<lambda>r. \<not> spec_expired r) (map spec_decrement rs)"

fun aged :: "nat \<Rightarrow> rr list \<Rightarrow> rr list" where
  "aged 0 rs = rs"
| "aged (Suc n) rs = aged n (decay_step rs)"

definition forget_number :: "rr \<Rightarrow> rr" where
  "forget_number r = r\<lparr>record_number := 0\<rparr>"

text \<open>The query \<^verbatim>\<open>handle_request\<close> sends carries this id.\<close>

definition tx_id_of :: "env \<Rightarrow> int" where
  "tx_id_of env = now_ms env AND 0xFFFFFFFF"

definition query_packet :: "env \<Rightarrow> string \<Rightarrow> string \<Rightarrow> pyval" where
  "query_packet env hostname qtype_name =
     PDict [(''id'', PInt (tx_id_of env)), (''flag'', PStr QUERY_FLAG),
            (''question'', PDict [(''name'', PStr hostname), (''type'', PStr qtype_name)])]"

text \<open>\<^verbatim>\<open>isinstance(v, dict)\<close>.\<close>

fun is_dict :: "pyval \<Rightarrow> bool" where
  "is_dict (PDict kvs) = True"
| "is_dict _ = False"

text \<open>The world once the query has been handed to the socket.\<close>

definition after_send :: "env \<Rightarrow> world \<Rightarrow> string \<Rightarrow> string \<Rightarrow> world" where
  "after_send env w hostname qtype_name =
     w\<lparr>sent := sent w @ [query_packet env hostname qtype_name]\<rparr>"

text \<open>
  A reply that \<^verbatim>\<open>handle_request\<close> accepts: the socket returns text that decodes to a
  dict whose id equals the id sent and whose flag is the response flag.
\<close>

definition correlated :: "env \<Rightarrow> (string \<times> pyval) list \<Rightarrow> bool" where
  "correlated env kvs =
     (send_result env = None
      \<and> (case recv_result env of Inl e \<Rightarrow> False | Inr data \<Rightarrow> loads env data = Some (PDict kvs))
      \<and> py_eq_int (dict_get kvs ''id'' PNone) (tx_id_of env)
      \<and> dict_get kvs ''flag'' PNone = PStr RESP_FLAG)"

subsection \<open>Example inputs\<close>

text \<open>
  An empty world, a socket and decoder that return a given outcome (the clock gives the
  query the id 3487918203), and a well-formed answer.
\<close>

definition empty_world :: world where
  "empty_world = \<lparr>table = RRTable_init, printed = [], sent = []\<rparr>"

definition example_env :: "py_exn + string \<Rightarrow> pyval option \<Rightarrow> env" where
  "example_env r d =
     \<lparr>now_ms = 1700000000123, send_result = None, recv_result = r,
      loads = (\<lambda>s. d), int_of_str = (\<lambda>s. None)\<rparr>"

definition example_answer :: "(string \<times> pyval) list" where
  "example_answer = [(''name'', PStr ''e.com''), (''type'', PStr ''A''),
                     (''result'', PStr ''5.6.7.8''), (''ttl'', PInt 5)]"


section \<open>Lemmas on the decay pass\<close>

lemma decrement_rec_eq: "decrement_rec r = Inr (spec_decrement r)"
  by (cases "ttl r") (simp_all add: decrement_rec_def spec_decrement_def py_gt_def py_sub_def)

lemma decrement_loop_eq: "decrement_loop rs = Inr (map spec_decrement rs)"
  by (induction rs) (simp_all add: decrement_rec_eq)

lemma kept_loop_eq: "kept_loop rs kept = Inr (kept @ filter (\<lambda>r. \<not> spec_expired r) rs)"
  by (induction rs arbitrary: kept) (auto simp: spec_expired_def py_le_def split: option.splits)

lemma renumber_loop_eq:
  "renumber_loop i rs = map (\<lambda>(i, r). r\<lparr>record_number := i\<rparr>) (enumerate i rs)"
  by (induction rs arbitrary: i) simp_all

lemma decay_tick_eq: "decay_tick t = Inr (spec_tick t)"
  by (simp add: decay_tick_def decrement_loop_eq remove_expired_records_def kept_loop_eq
      spec_tick_def spec_renumber_def renumber_loop_eq Let_def)

lemma spec_tick_records:
  "spec_tick t = \<lparr>records = renumber_loop 0 (decay_step (records t)),
                  table_record_number = length (decay_step (records t))\<rparr>"
  by (simp add: spec_tick_def Let_def decay_step_def spec_renumber_def renumber_loop_eq)

lemma length_renumber_loop [simp]: "length (renumber_loop i rs) = length rs"
  by (induction rs arbitrary: i) simp_all

lemma numbers_renumber_loop: "map record_number (renumber_loop i rs) = [i..<i + length rs]"
  by (induction rs arbitrary: i) (simp_all add: upt_rec)

lemma forget_renumber_loop: "map forget_number (renumber_loop i rs) = map forget_number rs"
  by (induction rs arbitrary: i) (simp_all add: forget_number_def)

lemma renumber_loop_cong:
  "map forget_number xs = map forget_number ys \<Longrightarrow> renumber_loop i xs = renumber_loop i ys"
proof (induction xs arbitrary: ys i)
  case Nil
  then show ?case by simp
next
  case (Cons x xs)
  then obtain y ys' where ys: "ys = y # ys'" by (cases ys) auto
  with Cons.prems have xy: "forget_number x = forget_number y"
    and rest: "map forget_number xs = map forget_number ys'"
    by simp_all
  from xy have "x\<lparr>record_number := i\<rparr> = y\<lparr>record_number := i\<rparr>"
    by (cases x, cases y) (simp add: forget_number_def)
  with rest show ?case using Cons.IH ys by simp
qed

lemma forget_spec_decrement:
  "forget_number x = forget_number y \<Longrightarrow>
   forget_number (spec_decrement x) = forget_number (spec_decrement y)"
  by (cases x, cases y) (simp add: forget_number_def spec_decrement_def split: option.splits)

lemma forget_spec_expired:
  "forget_number x = forget_number y \<Longrightarrow> spec_expired x = spec_expired y"
  by (cases x, cases y) (simp add: forget_number_def spec_expired_def)

lemma decay_step_cong:
  "map forget_number xs = map forget_number ys \<Longrightarrow>
   map forget_number (decay_step xs) = map forget_number (decay_step ys)"
proof (induction xs arbitrary: ys)
  case Nil
  then show ?case by (simp add: decay_step_def)
next
  case (Cons x xs)
  then obtain y ys' where ys: "ys = y # ys'" by (cases ys) auto
  with Cons.prems have xy: "forget_number x = forget_number y"
    and rest: "map forget_number xs = map forget_number ys'"
    by simp_all
  from xy have d: "forget_number (spec_decrement x) = forget_number (spec_decrement y)"
    by (rule forget_spec_decrement)
  from d have e: "spec_expired (spec_decrement x) = spec_expired (spec_decrement y)"
    by (rule forget_spec_expired)
  from Cons.IH [OF rest] d e ys show ?case by (simp add: decay_step_def)
qed

lemma aged_cong:
  "map forget_number xs = map forget_number ys \<Longrightarrow>
   map forget_number (aged n xs) = map forget_number (aged n ys)"
proof (induction n arbitrary: xs ys)
  case 0
  then show ?case by simp
next
  case (Suc n)
  from Suc.prems have "map forget_number (decay_step xs) = map forget_number (decay_step ys)"
    by (rule decay_step_cong)
  then show ?case unfolding aged.simps by (rule Suc.IH)
qed

text \<open>After at least one tick the table is the renumbering of the aged records.\<close>

lemma decay_ticks_eq:
  "0 < n \<Longrightarrow> decay_ticks n t =
     Inr \<lparr>records = renumber_loop 0 (aged n (records t)),
          table_record_number = length (aged n (records t))\<rparr>"
proof (induction n arbitrary: t)
  case 0
  then show ?case by simp
next
  case (Suc n)
  show ?case
  proof (cases "n = 0")
    case True
    then show ?thesis by (simp add: decay_tick_eq spec_tick_records)
  next
    case False
    let ?s = "decay_step (records t)"
    have c: "map forget_number (aged n (renumber_loop 0 ?s)) = map forget_number (aged n ?s)"
      by (rule aged_cong) (rule forget_renumber_loop)
    have r: "renumber_loop 0 (aged n (renumber_loop 0 ?s)) = renumber_loop 0 (aged n ?s)"
      using c by (rule renumber_loop_cong)
    have l: "length (aged n (renumber_loop 0 ?s)) = length (aged n ?s)"
      using c by (metis length_map)
    from False have "0 < n" by simp
    from Suc.IH [OF this, of "spec_tick t"] r l show ?thesis
      by (simp add: decay_tick_eq spec_tick_records)
  qed
qed

lemma decay_step_append: "decay_step (xs @ ys) = decay_step xs @ decay_step ys"
  by (simp add: decay_step_def)

lemma aged_append: "aged n (xs @ ys) = aged n xs @ aged n ys"
  by (induction n arbitrary: xs ys) (simp_all add: decay_step_append)

lemma aged_Nil [simp]: "aged n [] = []"
  by (induction n) (simp_all add: decay_step_def)

lemma aged_live:
  "static r = 0 \<Longrightarrow> ttl r = Some k \<Longrightarrow> int n < k \<Longrightarrow>
   aged n [r] = [r\<lparr>ttl := Some (k - int n)\<rparr>]"
proof (induction n arbitrary: r k)
  case 0
  then show ?case by simp
next
  case (Suc n)
  let ?r = "r\<lparr>ttl := Some (k - 1)\<rparr>"
  from Suc.prems have s: "decay_step [r] = [?r]"
    by (simp add: decay_step_def spec_decrement_def spec_expired_def)
  from Suc.prems have "aged n [?r] = [?r\<lparr>ttl := Some (k - 1 - int n)\<rparr>]"
    by (intro Suc.IH) simp_all
  with s show ?case by (simp add: algebra_simps)
qed

lemma aged_dead:
  "static r = 0 \<Longrightarrow> ttl r = Some k \<Longrightarrow> k \<le> int n \<Longrightarrow> 0 < n \<Longrightarrow> aged n [r] = []"
proof (induction n arbitrary: r k)
  case 0
  then show ?case by simp
next
  case (Suc n)
  show ?case
  proof (cases "k \<le> 1")
    case True
    with Suc.prems have "decay_step [r] = []"
      by (auto simp add: decay_step_def spec_decrement_def spec_expired_def)
    then show ?thesis by simp
  next
    case False
    let ?r = "r\<lparr>ttl := Some (k - 1)\<rparr>"
    from False Suc.prems have s: "decay_step [r] = [?r]"
      by (simp add: decay_step_def spec_decrement_def spec_expired_def)
    from False Suc.prems have "aged n [?r] = []"
      by (intro Suc.IH [where k = "k - 1"]) simp_all
    with s show ?thesis by simp
  qed
qed

lemma aged_keep: "ttl r = None \<or> static r \<noteq> 0 \<Longrightarrow> aged n [r] = [r]"
proof (induction n)
  case 0
  then show ?case by simp
next
  case (Suc n)
  from Suc.prems have "decay_step [r] = [r]"
    by (auto simp add: decay_step_def spec_decrement_def spec_expired_def split: option.splits)
  with Suc show ?case by simp
qed

lemma dense_renumbered:
  "dense \<lparr>records = renumber_loop 0 rs, table_record_number = length rs\<rparr>"
  by (simp add: dense_def numbers_renumber_loop)

lemma dense_decay_tick: "decay_tick t = Inr t' \<Longrightarrow> dense t'"
  by (auto simp add: decay_tick_eq spec_tick_records dense_renumbered)

lemma dense_add_record:
  "dense t \<Longrightarrow> dense (add_record t name rtype result ttl_arg static_arg)"
  by (simp add: dense_def add_record_def)

text \<open>A record that survives \<open>j\<close> ticks stays between the survivors around it; one that
  does not leaves the table as if it had never been stored.\<close>

lemma decay_ticks_around:
  assumes j: "0 < j" and split: "records t = xs @ r # ys" and r': "aged j [r] = [r']"
  shows "\<exists>tx ty. decay_ticks j (t\<lparr>records := xs\<rparr>) = Inr tx
           \<and> decay_ticks j (t\<lparr>records := ys\<rparr>) = Inr ty
           \<and> decay_ticks j t =
               Inr \<lparr>records = renumber_loop 0 (records tx @ r' # records ty),
                    table_record_number = length (records tx) + 1 + length (records ty)\<rparr>"
proof -
  let ?tx = "\<lparr>records = renumber_loop 0 (aged j xs), table_record_number = length (aged j xs)\<rparr>"
  let ?ty = "\<lparr>records = renumber_loop 0 (aged j ys), table_record_number = length (aged j ys)\<rparr>"
  have x: "decay_ticks j (t\<lparr>records := xs\<rparr>) = Inr ?tx"
    using decay_ticks_eq [OF j, of "t\<lparr>records := xs\<rparr>"] by simp
  have y: "decay_ticks j (t\<lparr>records := ys\<rparr>) = Inr ?ty"
    using decay_ticks_eq [OF j, of "t\<lparr>records := ys\<rparr>"] by simp
  have a: "aged j (records t) = aged j xs @ r' # aged j ys"
    using aged_append [of j xs "[r] @ ys"] aged_append [of j "[r]" ys] split r' by simp
  have "map forget_number (aged j xs @ r' # aged j ys) =
        map forget_number (records ?tx @ r' # records ?ty)"
    by (simp add: forget_renumber_loop)
  then have "renumber_loop 0 (aged j xs @ r' # aged j ys) =
        renumber_loop 0 (records ?tx @ r' # records ?ty)"
    by (rule renumber_loop_cong)
  with a have "decay_ticks j t =
      Inr \<lparr>records = renumber_loop 0 (records ?tx @ r' # records ?ty),
           table_record_number = length (records ?tx) + 1 + length (records ?ty)\<rparr>"
    using decay_ticks_eq [OF j, of t] by simp
  with x y show ?thesis by blast
qed

lemma decay_ticks_gone:
  assumes j: "0 < j" and split: "records t = xs @ r # ys" and gone: "aged j [r] = []"
  shows "decay_ticks j t = decay_ticks j (t\<lparr>records := xs @ ys\<rparr>)"
proof -
  have "aged j (records t) = aged j (xs @ ys)"
    using aged_append [of j xs "[r] @ ys"] aged_append [of j "[r]" ys] aged_append [of j xs ys]
      split gone by simp
  then show ?thesis
    using decay_ticks_eq [OF j, of t] decay_ticks_eq [OF j, of "t\<lparr>records := xs @ ys\<rparr>"]
    by simp
qed

lemma decay_ticks_dense: "0 < j \<Longrightarrow> \<exists>t'. decay_ticks j t = Inr t' \<and> dense t'"
  by (simp add: decay_ticks_eq dense_renumbered)

section \<open>Lemmas on handle_request\<close>


lemma handle_request_send_raises:
  "fst (get_record (table w) hostname qtype_name) = None \<Longrightarrow> send_result env = Some e \<Longrightarrow>
   handle_request env w hostname qtype_name = (Some e, w)"
  by (simp add: handle_request_def get_record_def Let_def)

lemma handle_request_recv_raises:
  "fst (get_record (table w) hostname qtype_name) = None \<Longrightarrow>
   send_result env = None \<Longrightarrow> recv_result env = Inl e \<Longrightarrow>
   handle_request env w hostname qtype_name =
     (if is_Exception e
      then (None, print_line (after_send env w hostname qtype_name)
                    ''No response from Local DNS (timeout or socket error)'')
      else (Some e, after_send env w hostname qtype_name))"
  by (cases e)
    (simp_all add: handle_request_def get_record_def Let_def after_send_def
      query_packet_def tx_id_of_def)

lemma handle_request_undecodable:
  "fst (get_record (table w) hostname qtype_name) = None \<Longrightarrow>
   send_result env = None \<Longrightarrow> recv_result env = Inr data \<Longrightarrow> loads env data = None \<Longrightarrow>
   handle_request env w hostname qtype_name =
     (Some JSONDecodeError, after_send env w hostname qtype_name)"
  by (simp add: handle_request_def get_record_def Let_def after_send_def
      query_packet_def tx_id_of_def)

lemma handle_request_mismatch:
  "fst (get_record (table w) hostname qtype_name) = None \<Longrightarrow>
   send_result env = None \<Longrightarrow> recv_result env = Inr data \<Longrightarrow> loads env data = Some resp \<Longrightarrow>
   \<not> is_dict resp
   \<or> (\<exists>kvs. resp = PDict kvs
        \<and> (\<not> py_eq_int (dict_get kvs ''id'' PNone) (tx_id_of env)
           \<or> dict_get kvs ''flag'' PNone \<noteq> PStr RESP_FLAG)) \<Longrightarrow>
   handle_request env w hostname qtype_name =
     (None, print_line (after_send env w hostname qtype_name) ''mismatched response; ignoring.'')"
  by (cases resp)
    (auto simp add: handle_request_def get_record_def Let_def after_send_def
      query_packet_def tx_id_of_def)

lemma handle_request_correlated:
  "fst (get_record (table w) hostname qtype_name) = None \<Longrightarrow>
   correlated env kvs \<Longrightarrow> dict_get kvs ''answer'' (PDict []) = PDict ans \<Longrightarrow>
   handle_request env w hostname qtype_name =
     (if dict_get ans ''result'' (PStr NOT_FOUND) \<noteq> PStr NOT_FOUND then
        (case py_int env (dict_get ans ''ttl'' (PInt 60)) of
           Inl e \<Rightarrow> (Some e, after_send env w hostname qtype_name)
         | Inr ttl_v \<Rightarrow>
             (None, show_table ((after_send env w hostname qtype_name)\<lparr>table :=
                add_record (table w) (dict_get ans ''name'' (PStr hostname))
                  (dict_get ans ''type'' (PStr qtype_name))
                  (dict_get ans ''result'' (PStr NOT_FOUND)) ttl_v 0\<rparr>)))
      else (None, show_table (after_send env w hostname qtype_name)))"
  by (auto simp add: handle_request_def get_record_def Let_def correlated_def after_send_def
        query_packet_def tx_id_of_def split: sum.splits)

lemma table_show_table [simp]: "table (show_table w) = table w"
  by (simp add: show_table_def display_table_def)


lemma sent_show_table [simp]: "sent (show_table w) = sent w"
  by (simp add: show_table_def display_table_def)

lemma table_after_send [simp]: "table (after_send env w h q) = table w"
  by (simp add: after_send_def)

lemma printed_after_send [simp]: "printed (after_send env w h q) = printed w"
  by (simp add: after_send_def)

lemma table_print_line [simp]: "table (print_line w s) = table w"
  by (simp add: print_line_def)

lemma sent_print_line [simp]: "sent (print_line w s) = sent w"
  by (simp add: print_line_def)

lemma handle_request_answer_not_dict:
  "fst (get_record (table w) hostname qtype_name) = None \<Longrightarrow>
   correlated env kvs \<Longrightarrow> \<not> is_dict (dict_get kvs ''answer'' (PDict [])) \<Longrightarrow>
   handle_request env w hostname qtype_name =
     (Some AttributeError, after_send env w hostname qtype_name)"
  by (cases "dict_get kvs ''answer'' (PDict [])")
    (auto simp add: handle_request_def get_record_def Let_def correlated_def after_send_def
      query_packet_def tx_id_of_def split: sum.splits)

lemma tx_id_example [simp]: "tx_id_of (example_env r d) = 3487918203"
  by (simp add: tx_id_of_def example_env_def)

text \<open>
  A correlated reply whose answer is an object. If the result (the sentinel when the
  answer has none) is \<^verbatim>\<open>Record not found\<close>, the table is unchanged. Otherwise, when
  \<^verbatim>\<open>int\<close> accepts the ttl (60 when the answer has none) and gives \<open>n\<close>, exactly one
  record is appended: it has the next number, the answer's name and type (the name and
  type asked for when the answer has none), the result, ttl \<open>n\<close> and \<open>static = 0\<close>.
\<close>

lemma install_answer:
  assumes miss: "fst (get_record (table w) hostname qtype_name) = None"
    and corr: "correlated env kvs"
    and ans: "dict_get kvs ''answer'' (PDict []) = PDict ans"
  shows "(dict_get ans ''result'' (PStr NOT_FOUND) = PStr NOT_FOUND \<longrightarrow>
            fst (handle_request env w hostname qtype_name) = None
            \<and> table (snd (handle_request env w hostname qtype_name)) = table w)
       \<and> (dict_get ans ''result'' (PStr NOT_FOUND) \<noteq> PStr NOT_FOUND
            \<and> py_int env (dict_get ans ''ttl'' (PInt 60)) = Inr n \<longrightarrow>
            fst (handle_request env w hostname qtype_name) = None
            \<and> table (snd (handle_request env w hostname qtype_name)) =
                \<lparr>records = records (table w) @
                   [\<lparr>record_number = table_record_number (table w),
                     rr_name = dict_get ans ''name'' (PStr hostname),
                     rr_type = dict_get ans ''type'' (PStr qtype_name),
                     rr_result = dict_get ans ''result'' (PStr NOT_FOUND),
                     ttl = Some n,
                     static = 0\<rparr>],
                 table_record_number = table_record_number (table w) + 1\<rparr>)"
  by (simp add: handle_request_correlated [OF miss corr ans] add_record_def)

text \<open>The answer for \<^verbatim>\<open>e.com\<close> with ttl 5, into an empty cache.\<close>

lemma install_answer_example:
  "fst (handle_request
     (example_env (Inr ''reply'')
        (Some (PDict [(''id'', PInt 3487918203), (''flag'', PStr ''0001''),
                      (''answer'', PDict example_answer)])))
     empty_world ''e.com'' ''A'') = None
   \<and> table (snd (handle_request
     (example_env (Inr ''reply'')
        (Some (PDict [(''id'', PInt 3487918203), (''flag'', PStr ''0001''),
                      (''answer'', PDict example_answer)])))
     empty_world ''e.com'' ''A''))
   = \<lparr>records =
        [\<lparr>record_number = 0, rr_name = PStr ''e.com'', rr_type = PStr ''A'',
          rr_result = PStr ''5.6.7.8'', ttl = Some 5, static = 0\<rparr>],
      table_record_number = 1\<rparr>"
proof -
  let ?kvs = "[(''id'', PInt 3487918203), (''flag'', PStr ''0001''),
               (''answer'', PDict example_answer)]"
  let ?env = "example_env (Inr ''reply'') (Some (PDict ?kvs))"
  have miss: "fst (get_record (table empty_world) ''e.com'' ''A'') = None"
    by (simp add: empty_world_def RRTable_init_def get_record_def)
  have corr: "correlated ?env ?kvs"
    by (simp add: correlated_def dict_get_def RESP_FLAG_def) (simp add: example_env_def)
  have ans: "dict_get ?kvs ''answer'' (PDict []) = PDict example_answer"
    by (simp add: dict_get_def)
  have res: "dict_get example_answer ''result'' (PStr NOT_FOUND) \<noteq> PStr NOT_FOUND"
    by (simp add: dict_get_def example_answer_def NOT_FOUND_def)
  have ttl: "py_int ?env (dict_get example_answer ''ttl'' (PInt 60)) = Inr 5"
    by (simp add: dict_get_def example_answer_def)
  from install_answer [OF miss corr ans, of 5] res ttl show ?thesis
    by (simp add: dict_get_def example_answer_def empty_world_def RRTable_init_def)
qed

text \<open>
  A correlated reply without the key \<^verbatim>\<open>answer\<close>, or whose answer is an object
  without a \<^verbatim>\<open>result\<close>: the call returns without an exception and the table is
  unchanged.
\<close>

lemma missing_result_is_negative:
  assumes miss: "fst (get_record (table w) hostname qtype_name) = None"
    and corr: "correlated env kvs"
    and lacks: "map_of kvs ''answer'' = None
                \<or> (map_of kvs ''answer'' = Some (PDict ans) \<and> map_of ans ''result'' = None)"
  shows "fst (handle_request env w hostname qtype_name) = None
         \<and> table (snd (handle_request env w hostname qtype_name)) = table w"
proof -
  from lacks obtain a where a: "dict_get kvs ''answer'' (PDict []) = PDict a"
    and r: "dict_get a ''result'' (PStr NOT_FOUND) = PStr NOT_FOUND"
    by (auto simp add: dict_get_def)
  show ?thesis by (simp add: handle_request_correlated [OF miss corr a] r)
qed

text \<open>An answer without a result, and a reply without an answer.\<close>

lemma missing_result_is_negative_example:
  "fst (handle_request
     (example_env (Inr ''reply'')
        (Some (PDict [(''id'', PInt 3487918203), (''flag'', PStr ''0001''),
                      (''answer'', PDict [(''name'', PStr ''e.com''), (''ttl'', PInt 5)])])))
     empty_world ''e.com'' ''A'') = None
   \<and> table (snd (handle_request
     (example_env (Inr ''reply'')
        (Some (PDict [(''id'', PInt 3487918203), (''flag'', PStr ''0001''),
                      (''answer'', PDict [(''name'', PStr ''e.com''), (''ttl'', PInt 5)])])))
     empty_world ''e.com'' ''A'')) = RRTable_init
   \<and> table (snd (handle_request
     (example_env (Inr ''reply'')
        (Some (PDict [(''id'', PInt 3487918203), (''flag'', PStr ''0001'')])))
     empty_world ''e.com'' ''A'')) = RRTable_init"
proof -
  let ?a = "[(''name'', PStr ''e.com''), (''ttl'', PInt 5)]"
  let ?k1 = "[(''id'', PInt 3487918203), (''flag'', PStr ''0001''), (''answer'', PDict ?a)]"
  let ?k2 = "[(''id'', PInt 3487918203), (''flag'', PStr ''0001'')]"
  have miss: "fst (get_record (table empty_world) ''e.com'' ''A'') = None"
    by (simp add: empty_world_def RRTable_init_def get_record_def)
  have c1: "correlated (example_env (Inr ''reply'') (Some (PDict ?k1))) ?k1"
    by (simp add: correlated_def dict_get_def RESP_FLAG_def) (simp add: example_env_def)
  have c2: "correlated (example_env (Inr ''reply'') (Some (PDict ?k2))) ?k2"
    by (simp add: correlated_def dict_get_def RESP_FLAG_def) (simp add: example_env_def)
  have l1: "map_of ?k1 ''answer'' = None
            \<or> (map_of ?k1 ''answer'' = Some (PDict ?a) \<and> map_of ?a ''result'' = None)"
    by simp
  have l2: "map_of ?k2 ''answer'' = None
            \<or> (map_of ?k2 ''answer'' = Some (PDict []) \<and> map_of [] ''result'' = None)"
    by simp
  from missing_result_is_negative [OF miss c1 l1] missing_result_is_negative [OF miss c2 l2]
  show ?thesis by (simp add: empty_world_def)
qed

section \<open>The claims\<close>

text \<open>
  Claim C1. On every table one decay tick returns, and its result is the specification's
  tick: the ttl of every record with \<open>static = 0\<close> and a present ttl above 0 is
  decremented by 1; then exactly the records with \<open>static = 0\<close> and a present ttl of
  at most 0 are removed; then the survivors are numbered \<open>0, 1, ...\<close> in storage order
  and the counter is set to their count. A record whose \<open>static\<close> is not 0 or whose
  ttl is absent is neither decremented nor removed.
\<close>

theorem decay_tick_steps:
  "decay_tick t = Inr (spec_tick t)
   \<and> (\<forall>r. static r \<noteq> 0 \<or> ttl r = None \<longrightarrow> spec_decrement r = r \<and> \<not> spec_expired r)"
  by (auto simp add: decay_tick_eq spec_decrement_def spec_expired_def split: option.splits)

text \<open>One tick on a table with a static record, two live ones and one without a ttl.\<close>

theorem decay_tick_steps_witness:
  "decay_tick
     \<lparr>records =
        [\<lparr>record_number = 0, rr_name = PStr ''b.com'', rr_type = PStr ''NS'',
          rr_result = PStr ''ns1.b.com'', ttl = None, static = 1\<rparr>,
         \<lparr>record_number = 1, rr_name = PStr ''a.com'', rr_type = PStr ''A'',
          rr_result = PStr ''1.2.3.4'', ttl = Some 2, static = 0\<rparr>,
         \<lparr>record_number = 2, rr_name = PStr ''e.com'', rr_type = PStr ''A'',
          rr_result = PStr ''5.6.7.8'', ttl = Some 1, static = 0\<rparr>,
         \<lparr>record_number = 3, rr_name = PStr ''m.com'', rr_type = PStr ''A'',
          rr_result = PStr ''9.9.9.9'', ttl = None, static = 0\<rparr>],
      table_record_number = 4\<rparr>
   = Inr
     \<lparr>records =
        [\<lparr>record_number = 0, rr_name = PStr ''b.com'', rr_type = PStr ''NS'',
          rr_result = PStr ''ns1.b.com'', ttl = None, static = 1\<rparr>,
         \<lparr>record_number = 1, rr_name = PStr ''a.com'', rr_type = PStr ''A'',
          rr_result = PStr ''1.2.3.4'', ttl = Some 1, static = 0\<rparr>,
         \<lparr>record_number = 2, rr_name = PStr ''m.com'', rr_type = PStr ''A'',
          rr_result = PStr ''9.9.9.9'', ttl = None, static = 0\<rparr>],
      table_record_number = 3\<rparr>"
  using decay_tick_steps [of "\<lparr>records =
        [\<lparr>record_number = 0, rr_name = PStr ''b.com'', rr_type = PStr ''NS'',
          rr_result = PStr ''ns1.b.com'', ttl = None, static = 1\<rparr>,
         \<lparr>record_number = 1, rr_name = PStr ''a.com'', rr_type = PStr ''A'',
          rr_result = PStr ''1.2.3.4'', ttl = Some 2, static = 0\<rparr>,
         \<lparr>record_number = 2, rr_name = PStr ''e.com'', rr_type = PStr ''A'',
          rr_result = PStr ''5.6.7.8'', ttl = Some 1, static = 0\<rparr>,
         \<lparr>record_number = 3, rr_name = PStr ''m.com'', rr_type = PStr ''A'',
          rr_result = PStr ''9.9.9.9'', ttl = None, static = 0\<rparr>],
      table_record_number = 4\<rparr>"]
  by (simp add: spec_tick_def spec_decrement_def spec_expired_def spec_renumber_def)

text \<open>
  Claim C2. \<^verbatim>\<open>get_record\<close> returns the first record in storage order whose name and
  type are the two strings asked for and which is valid for lookup (\<open>static = 1\<close>, or a
  ttl that is present and above 0), \<open>None\<close> when there is none, and the table after
  the call is the table before it.
\<close>

theorem get_record_first_valid:
  "fst (get_record t name rtype) =
     find (\<lambda>r. rr_name r = PStr name \<and> rr_type r = PStr rtype \<and> spec_valid_for_lookup r)
       (records t)
   \<and> snd (get_record t name rtype) = t"
proof -
  have "get_record_loop rs name rtype =
     find (\<lambda>r. rr_name r = PStr name \<and> rr_type r = PStr rtype \<and> spec_valid_for_lookup r) rs"
    for rs
    by (induction rs) (auto simp: spec_valid_for_lookup_def)
  then show ?thesis by (simp add: get_record_def)
qed

text \<open>An expired match and a match of another type are passed over.\<close>

theorem get_record_first_valid_witness:
  "fst (get_record
     \<lparr>records =
        [\<lparr>record_number = 0, rr_name = PStr ''a.com'', rr_type = PStr ''A'',
          rr_result = PStr ''1.1.1.1'', ttl = Some 0, static = 0\<rparr>,
         \<lparr>record_number = 1, rr_name = PStr ''a.com'', rr_type = PStr ''NS'',
          rr_result = PStr ''ns.a.com'', ttl = Some 9, static = 0\<rparr>,
         \<lparr>record_number = 2, rr_name = PStr ''a.com'', rr_type = PStr ''A'',
          rr_result = PStr ''2.2.2.2'', ttl = Some 7, static = 0\<rparr>,
         \<lparr>record_number = 3, rr_name = PStr ''a.com'', rr_type = PStr ''A'',
          rr_result = PStr ''3.3.3.3'', ttl = None, static = 1\<rparr>],
      table_record_number = 4\<rparr> ''a.com'' ''A'')
   = Some \<lparr>record_number = 2, rr_name = PStr ''a.com'', rr_type = PStr ''A'',
          rr_result = PStr ''2.2.2.2'', ttl = Some 7, static = 0\<rparr>"
  using get_record_first_valid [of "\<lparr>records =
        [\<lparr>record_number = 0, rr_name = PStr ''a.com'', rr_type = PStr ''A'',
          rr_result = PStr ''1.1.1.1'', ttl = Some 0, static = 0\<rparr>,
         \<lparr>record_number = 1, rr_name = PStr ''a.com'', rr_type = PStr ''NS'',
          rr_result = PStr ''ns.a.com'', ttl = Some 9, static = 0\<rparr>,
         \<lparr>record_number = 2, rr_name = PStr ''a.com'', rr_type = PStr ''A'',
          rr_result = PStr ''2.2.2.2'', ttl = Some 7, static = 0\<rparr>,
         \<lparr>record_number = 3, rr_name = PStr ''a.com'', rr_type = PStr ''A'',
          rr_result = PStr ''3.3.3.3'', ttl = None, static = 1\<rparr>],
      table_record_number = 4\<rparr>" "''a.com''" "''A''"]
  by (simp add: spec_valid_for_lookup_def)

text \<open>
  Claim C8. Dense numbering (record \<open>i\<close> has number \<open>i\<close>, and the counter is the
  number of records) holds in the initial table and is kept by \<^verbatim>\<open>add_record\<close>,
  \<^verbatim>\<open>get_record\<close>, \<^verbatim>\<open>display_table\<close> and the decay tick, so it holds in every
  table the program reaches.
\<close>

theorem dense_invariant:
  "dense RRTable_init
   \<and> (dense t \<longrightarrow> dense (add_record t name rtype result ttl_arg static_arg))
   \<and> (dense t \<longrightarrow> dense (snd (get_record t qname qtype)))
   \<and> (dense t \<longrightarrow> dense (snd (display_table t)))
   \<and> (dense t \<longrightarrow> (\<exists>t'. decay_tick t = Inr t' \<and> dense t'))
   \<and> (reachable t \<longrightarrow> dense t)"
proof -
  have "reachable u \<Longrightarrow> dense u" for u
  proof (induction rule: reachable.induct)
    case reach_init
    show ?case by (simp add: dense_def RRTable_init_def)
  next
    case (reach_add t name rtype result ttl_arg static_arg)
    then show ?case by (simp add: dense_add_record)
  next
    case (reach_get t name rtype)
    then show ?case by (simp add: get_record_def)
  next
    case (reach_display t)
    then show ?case by (simp add: display_table_def)
  next
    case (reach_tick t t')
    then show ?case by (simp add: dense_decay_tick)
  qed
  moreover have "dense RRTable_init" by (simp add: dense_def RRTable_init_def)
  moreover have "\<exists>t'. decay_tick t = Inr t' \<and> dense t'"
    by (simp add: decay_tick_eq spec_tick_records dense_renumbered)
  ultimately show ?thesis
    by (simp add: dense_add_record get_record_def display_table_def)
qed

text \<open>Two insertions into the initial table.\<close>

theorem dense_invariant_witness:
  "dense (add_record (add_record RRTable_init (PStr ''a.com'') (PStr ''A'') (PStr ''1.2.3.4'') 2 0)
            (PStr ''b.com'') (PStr ''NS'') (PStr ''ns1.b.com'') 0 1)
   \<and> reachable (add_record RRTable_init (PStr ''a.com'') (PStr ''A'') (PStr ''1.2.3.4'') 2 0)"
proof -
  let ?t = "add_record RRTable_init (PStr ''a.com'') (PStr ''A'') (PStr ''1.2.3.4'') 2 0"
  have r: "reachable ?t" by (intro reachable.intros)
  from dense_invariant [of ?t] r have d: "dense ?t" by blast
  from dense_invariant [of ?t "PStr ''b.com''" "PStr ''NS''" "PStr ''ns1.b.com''" 0 1] d r
  show ?thesis by blast
qed

text \<open>
  Claim C9. The registry maps \<^verbatim>\<open>A\<close>, \<^verbatim>\<open>AAAA\<close>, \<^verbatim>\<open>CNAME\<close> and \<^verbatim>\<open>NS\<close> to the
  four different codes 8, 4, 2 and 1, \<^verbatim>\<open>get_type_name\<close> maps each code back to its
  name, and every other name and every other code gives \<open>None\<close>.
\<close>

theorem type_registry:
  "get_type_code ''A'' = Some 8 \<and> get_type_code ''AAAA'' = Some 4
   \<and> get_type_code ''CNAME'' = Some 2 \<and> get_type_code ''NS'' = Some 1
   \<and> get_type_name 8 = Some ''A'' \<and> get_type_name 4 = Some ''AAAA''
   \<and> get_type_name 2 = Some ''CNAME'' \<and> get_type_name 1 = Some ''NS''
   \<and> (n \<notin> {''A'', ''AAAA'', ''CNAME'', ''NS''} \<longrightarrow> get_type_code n = None)
   \<and> (c \<notin> {8, 4, 2, 1} \<longrightarrow> get_type_name c = None)"
  by (simp add: get_type_code_def get_type_name_def name_to_code_def code_to_name_def
      dict_of_def name_to_code_items_def)

text \<open>A name and a code outside the registry, and one pair inside it.\<close>

theorem type_registry_witness:
  "get_type_code ''MX'' = None \<and> get_type_name 3 = None
   \<and> get_type_code ''CNAME'' = Some 2 \<and> get_type_name 2 = Some ''CNAME''"
  using type_registry [of "''MX''" 3] by simp

text \<open>
  Claim C5, as amended. Take a record with \<open>static = 0\<close> and ttl \<open>k\<close> in a table on
  which only decay ticks run. After \<open>j\<close> ticks with \<open>0 < j < k\<close> it is still stored,
  between the survivors of the records before it and of those after it, with ttl
  \<open>k - j\<close>. The tick that takes its ttl to 0 removes it in that same tick: from tick
  \<open>k\<close> on (from the first tick on when \<open>k \<le> 0\<close>) the table is what it would be had the
  record never been stored. After every tick the numbering is dense and the counter is
  the number of records.
\<close>

theorem ttl_countdown:
  assumes "records t = xs @ r # ys" and "static r = 0" and "ttl r = Some k" and "0 < j"
  shows "(int j < k \<longrightarrow>
            (\<exists>tx ty. decay_ticks j (t\<lparr>records := xs\<rparr>) = Inr tx
               \<and> decay_ticks j (t\<lparr>records := ys\<rparr>) = Inr ty
               \<and> decay_ticks j t =
                   Inr \<lparr>records = renumber_loop 0
                                     (records tx @ r\<lparr>ttl := Some (k - int j)\<rparr> # records ty),
                        table_record_number = length (records tx) + 1 + length (records ty)\<rparr>))
       \<and> (k \<le> int j \<longrightarrow> decay_ticks j t = decay_ticks j (t\<lparr>records := xs @ ys\<rparr>))
       \<and> (\<exists>t'. decay_ticks j t = Inr t' \<and> dense t')"
proof (intro conjI impI)
  assume "int j < k"
  with assms have "aged j [r] = [r\<lparr>ttl := Some (k - int j)\<rparr>]"
    by (simp add: aged_live)
  with assms show "\<exists>tx ty. decay_ticks j (t\<lparr>records := xs\<rparr>) = Inr tx
               \<and> decay_ticks j (t\<lparr>records := ys\<rparr>) = Inr ty
               \<and> decay_ticks j t =
                   Inr \<lparr>records = renumber_loop 0
                                     (records tx @ r\<lparr>ttl := Some (k - int j)\<rparr> # records ty),
                        table_record_number = length (records tx) + 1 + length (records ty)\<rparr>"
    by (intro decay_ticks_around)
next
  assume "k \<le> int j"
  with assms have "aged j [r] = []" by (simp add: aged_dead)
  with assms show "decay_ticks j t = decay_ticks j (t\<lparr>records := xs @ ys\<rparr>)"
    by (intro decay_ticks_gone)
next
  from assms show "\<exists>t'. decay_ticks j t = Inr t' \<and> dense t'"
    by (intro decay_ticks_dense)
qed

text \<open>
  Two and three ticks on a table of three records: the first expires at once, the second
  counts down from 3 and is gone with the third tick, the static one stays.
\<close>

theorem ttl_countdown_witness:
  "decay_ticks 2
     \<lparr>records =
        [\<lparr>record_number = 0, rr_name = PStr ''a.com'', rr_type = PStr ''A'',
          rr_result = PStr ''1.2.3.4'', ttl = Some 1, static = 0\<rparr>,
         \<lparr>record_number = 1, rr_name = PStr ''e.com'', rr_type = PStr ''A'',
          rr_result = PStr ''5.6.7.8'', ttl = Some 3, static = 0\<rparr>,
         \<lparr>record_number = 2, rr_name = PStr ''b.com'', rr_type = PStr ''NS'',
          rr_result = PStr ''ns1.b.com'', ttl = None, static = 1\<rparr>],
      table_record_number = 3\<rparr>
   = Inr
     \<lparr>records =
        [\<lparr>record_number = 0, rr_name = PStr ''e.com'', rr_type = PStr ''A'',
          rr_result = PStr ''5.6.7.8'', ttl = Some 1, static = 0\<rparr>,
         \<lparr>record_number = 1, rr_name = PStr ''b.com'', rr_type = PStr ''NS'',
          rr_result = PStr ''ns1.b.com'', ttl = None, static = 1\<rparr>],
      table_record_number = 2\<rparr>
   \<and> decay_ticks 3
     \<lparr>records =
        [\<lparr>record_number = 0, rr_name = PStr ''a.com'', rr_type = PStr ''A'',
          rr_result = PStr ''1.2.3.4'', ttl = Some 1, static = 0\<rparr>,
         \<lparr>record_number = 1, rr_name = PStr ''e.com'', rr_type = PStr ''A'',
          rr_result = PStr ''5.6.7.8'', ttl = Some 3, static = 0\<rparr>,
         \<lparr>record_number = 2, rr_name = PStr ''b.com'', rr_type = PStr ''NS'',
          rr_result = PStr ''ns1.b.com'', ttl = None, static = 1\<rparr>],
      table_record_number = 3\<rparr>
   = Inr
     \<lparr>records =
        [\<lparr>record_number = 0, rr_name = PStr ''b.com'', rr_type = PStr ''NS'',
          rr_result = PStr ''ns1.b.com'', ttl = None, static = 1\<rparr>],
      table_record_number = 1\<rparr>"
proof -
  let ?a = "\<lparr>record_number = 0, rr_name = PStr ''a.com'', rr_type = PStr ''A'',
          rr_result = PStr ''1.2.3.4'', ttl = Some 1, static = 0\<rparr>"
  let ?e = "\<lparr>record_number = 1, rr_name = PStr ''e.com'', rr_type = PStr ''A'',
          rr_result = PStr ''5.6.7.8'', ttl = Some 3, static = 0\<rparr>"
  let ?b = "\<lparr>record_number = 2, rr_name = PStr ''b.com'', rr_type = PStr ''NS'',
          rr_result = PStr ''ns1.b.com'', ttl = None, static = 1\<rparr>"
  let ?t = "\<lparr>records = [?a, ?e, ?b], table_record_number = 3\<rparr>"
  have two: "(2::nat) = Suc (Suc 0)" and three: "(3::nat) = Suc (Suc (Suc 0))"
    by simp_all
  have x: "decay_ticks 2 (?t\<lparr>records := [?a]\<rparr>) = Inr \<lparr>records = [], table_record_number = 0\<rparr>"
    unfolding two
    by (simp add: decay_tick_eq spec_tick_def spec_decrement_def spec_expired_def spec_renumber_def)
  have y: "decay_ticks 2 (?t\<lparr>records := [?b]\<rparr>) =
      Inr \<lparr>records = [?b\<lparr>record_number := 0\<rparr>], table_record_number = 1\<rparr>"
    unfolding two
    by (simp add: decay_tick_eq spec_tick_def spec_decrement_def spec_expired_def spec_renumber_def)
  have z: "decay_ticks 3 (?t\<lparr>records := [?a] @ [?b]\<rparr>) =
      Inr \<lparr>records = [?b\<lparr>record_number := 0\<rparr>], table_record_number = 1\<rparr>"
    unfolding three
    by (simp add: decay_tick_eq spec_tick_def spec_decrement_def spec_expired_def spec_renumber_def)
  have h: "records ?t = [?a] @ ?e # [?b]" "static ?e = 0" "ttl ?e = Some 3"
    by simp_all
  have "0 < (2::nat)" and "0 < (3::nat)" by simp_all
  from ttl_countdown [OF h \<open>0 < (2::nat)\<close>] ttl_countdown [OF h \<open>0 < (3::nat)\<close>] x y z
  show ?thesis by auto
qed

text \<open>
  The claim as written has the ttl reach 0 and the record go on the tick after that. A
  record with ttl 1 is gone after one tick: it is never stored with ttl 0.
\<close>

theorem ttl_countdown_counterexample:
  "decay_ticks 1
     \<lparr>records =
        [\<lparr>record_number = 0, rr_name = PStr ''a.com'', rr_type = PStr ''A'',
          rr_result = PStr ''1.2.3.4'', ttl = Some 1, static = 0\<rparr>],
      table_record_number = 1\<rparr>
   = Inr \<lparr>records = [], table_record_number = 0\<rparr>"
  by (simp add: decay_tick_def decrement_rec_def py_gt_def py_sub_def
      remove_expired_records_def py_le_def)

text \<open>
  Claim C7. The decay pass returns on every table, whatever the number of ticks: no
  comparison or subtraction is ever run on an absent ttl. A record with \<open>static = 0\<close>
  and an absent ttl is neither decremented nor removed by any number of ticks: it stays,
  with all its fields but the number it is given, between the survivors of the records
  before it and of those after it.
\<close>

theorem malformed_untouched:
  "(\<exists>t'. decay_tick t = Inr t')
   \<and> (\<exists>t'. decay_ticks j t = Inr t')
   \<and> (0 < j \<and> records t = xs @ r # ys \<and> static r = 0 \<and> ttl r = None \<longrightarrow>
        (\<exists>tx ty. decay_ticks j (t\<lparr>records := xs\<rparr>) = Inr tx
           \<and> decay_ticks j (t\<lparr>records := ys\<rparr>) = Inr ty
           \<and> decay_ticks j t =
               Inr \<lparr>records = renumber_loop 0 (records tx @ r # records ty),
                    table_record_number = length (records tx) + 1 + length (records ty)\<rparr>))"
proof (intro conjI impI)
  show "\<exists>t'. decay_tick t = Inr t'" by (simp add: decay_tick_eq)
next
  show "\<exists>t'. decay_ticks j t = Inr t'"
    by (cases "j = 0") (simp_all add: decay_ticks_eq)
next
  assume a: "0 < j \<and> records t = xs @ r # ys \<and> static r = 0 \<and> ttl r = None"
  then have "aged j [r] = [r]" by (simp add: aged_keep)
  with a show "\<exists>tx ty. decay_ticks j (t\<lparr>records := xs\<rparr>) = Inr tx
           \<and> decay_ticks j (t\<lparr>records := ys\<rparr>) = Inr ty
           \<and> decay_ticks j t =
               Inr \<lparr>records = renumber_loop 0 (records tx @ r # records ty),
                    table_record_number = length (records tx) + 1 + length (records ty)\<rparr>"
    by (intro decay_ticks_around) simp_all
qed

text \<open>One tick on an expiring record followed by a record without a ttl.\<close>

theorem malformed_untouched_witness:
  "decay_ticks 1
     \<lparr>records =
        [\<lparr>record_number = 0, rr_name = PStr ''a.com'', rr_type = PStr ''A'',
          rr_result = PStr ''1.2.3.4'', ttl = Some 1, static = 0\<rparr>,
         \<lparr>record_number = 1, rr_name = PStr ''m.com'', rr_type = PStr ''A'',
          rr_result = PStr ''9.9.9.9'', ttl = None, static = 0\<rparr>],
      table_record_number = 2\<rparr>
   = Inr
     \<lparr>records =
        [\<lparr>record_number = 0, rr_name = PStr ''m.com'', rr_type = PStr ''A'',
          rr_result = PStr ''9.9.9.9'', ttl = None, static = 0\<rparr>],
      table_record_number = 1\<rparr>"
proof -
  let ?a = "\<lparr>record_number = 0, rr_name = PStr ''a.com'', rr_type = PStr ''A'',
          rr_result = PStr ''1.2.3.4'', ttl = Some 1, static = 0\<rparr>"
  let ?m = "\<lparr>record_number = 1, rr_name = PStr ''m.com'', rr_type = PStr ''A'',
          rr_result = PStr ''9.9.9.9'', ttl = None, static = 0\<rparr>"
  let ?t = "\<lparr>records = [?a, ?m], table_record_number = 2\<rparr>"
  have x: "decay_ticks 1 (?t\<lparr>records := [?a]\<rparr>) = Inr \<lparr>records = [], table_record_number = 0\<rparr>"
    by (simp add: decay_tick_eq spec_tick_def spec_decrement_def spec_expired_def spec_renumber_def)
  have y: "decay_ticks 1 (?t\<lparr>records := []\<rparr>) = Inr \<lparr>records = [], table_record_number = 0\<rparr>"
    by (simp add: decay_tick_eq spec_tick_def spec_decrement_def spec_expired_def spec_renumber_def)
  have "0 < (1::nat) \<and> records ?t = [?a] @ ?m # [] \<and> static ?m = 0 \<and> ttl ?m = None"
    by simp
  with malformed_untouched [of ?t 1 "[?a]" ?m "[]"] x y show ?thesis by auto
qed

text \<open>
  Claim C3. On a cache miss, the call leaves the table as it found it whenever the
  receive raises (a timeout or any other exception), the text received does not decode,
  it decodes to something that is not a dict, the id of the reply differs from the id of
  the query just sent, or its flag is not the response flag. The query sent carries the
  id \<open>tx_id_of env\<close>, so a reply with another id is never installed.
\<close>

theorem rejected_reply_leaves_cache:
  assumes miss: "fst (get_record (table w) hostname qtype_name) = None"
    and rejected:
      "recv_result env = Inl e
       \<or> (recv_result env = Inr data \<and> loads env data = None)
       \<or> (recv_result env = Inr data \<and> loads env data = Some resp \<and> \<not> is_dict resp)
       \<or> (recv_result env = Inr data \<and> loads env data = Some (PDict kvs)
           \<and> \<not> py_eq_int (dict_get kvs ''id'' PNone) (tx_id_of env))
       \<or> (recv_result env = Inr data \<and> loads env data = Some (PDict kvs)
           \<and> dict_get kvs ''flag'' PNone \<noteq> PStr RESP_FLAG)"
  shows "table (snd (handle_request env w hostname qtype_name)) = table w
         \<and> (send_result env = None \<longrightarrow>
              sent (snd (handle_request env w hostname qtype_name)) =
                sent w @ [query_packet env hostname qtype_name])"
proof (cases "send_result env")
  case (Some x)
  with miss show ?thesis by (simp add: handle_request_send_raises)
next
  case None
  from rejected show ?thesis
  proof (elim disjE conjE)
    assume "recv_result env = Inl e"
    with miss None show ?thesis
      by (simp add: handle_request_recv_raises after_send_def)
  next
    assume "recv_result env = Inr data" and "loads env data = None"
    with miss None show ?thesis
      by (simp add: handle_request_undecodable after_send_def)
  next
    assume "recv_result env = Inr data" and "loads env data = Some resp" and "\<not> is_dict resp"
    with miss None show ?thesis
      by (simp add: handle_request_mismatch [where resp = resp] after_send_def)
  next
    assume "recv_result env = Inr data" and "loads env data = Some (PDict kvs)"
      and "\<not> py_eq_int (dict_get kvs ''id'' PNone) (tx_id_of env)"
    with miss None show ?thesis
      by (simp add: handle_request_mismatch [where resp = "PDict kvs"] after_send_def)
  next
    assume "recv_result env = Inr data" and "loads env data = Some (PDict kvs)"
      and "dict_get kvs ''flag'' PNone \<noteq> PStr RESP_FLAG"
    with miss None show ?thesis
      by (simp add: handle_request_mismatch [where resp = "PDict kvs"] after_send_def)
  qed
qed

text \<open>A reply with the id 7 to the query 3487918203, and a timeout.\<close>

theorem rejected_reply_leaves_cache_witness:
  "table (snd (handle_request
     (example_env (Inr ''reply'')
        (Some (PDict [(''id'', PInt 7), (''flag'', PStr ''0001''),
                      (''answer'', PDict example_answer)])))
     empty_world ''e.com'' ''A'')) = RRTable_init
   \<and> table (snd (handle_request (example_env (Inl SocketTimeout) None)
     empty_world ''e.com'' ''A'')) = RRTable_init"
proof -
  let ?kvs = "[(''id'', PInt 7), (''flag'', PStr ''0001''), (''answer'', PDict example_answer)]"
  let ?env = "example_env (Inr ''reply'') (Some (PDict ?kvs))"
  have miss: "fst (get_record (table empty_world) ''e.com'' ''A'') = None"
    by (simp add: empty_world_def RRTable_init_def get_record_def)
  have "recv_result ?env = Inr ''reply'' \<and> loads ?env ''reply'' = Some (PDict ?kvs)"
    by (simp add: example_env_def)
  moreover have "\<not> py_eq_int (dict_get ?kvs ''id'' PNone) (tx_id_of ?env)"
    by (simp add: dict_get_def)
  ultimately have a: "table (snd (handle_request ?env empty_world ''e.com'' ''A'')) = table empty_world"
    using rejected_reply_leaves_cache [OF miss, of ?env SocketTimeout "''reply''" PNone ?kvs]
    by simp
  have "recv_result (example_env (Inl SocketTimeout) None) = Inl SocketTimeout"
    by (simp add: example_env_def)
  then have b: "table (snd (handle_request (example_env (Inl SocketTimeout) None)
     empty_world ''e.com'' ''A'')) = table empty_world"
    using rejected_reply_leaves_cache [OF miss, of "example_env (Inl SocketTimeout) None"
      SocketTimeout "''reply''" PNone "[]"]
    by simp
  from a b show ?thesis by (simp add: empty_world_def)
qed

text \<open>
  Claim C4 does not hold on the code. On a cache miss followed by a correlated reply
  whose answer has a result other than \<^verbatim>\<open>Record not found\<close> and a ttl that \<^verbatim>\<open>int\<close>
  rejects (\<^verbatim>\<open>null\<close>, a list, an object, a non-finite float, a string that is not a
  number), the exception of \<^verbatim>\<open>int\<close> leaves the call: no record is appended and
  nothing is printed. The claim has exactly one record appended for every correlated
  reply with such a result.
\<close>

theorem bad_ttl_raises:
  assumes miss: "fst (get_record (table w) hostname qtype_name) = None"
    and corr: "correlated env kvs"
    and ans: "dict_get kvs ''answer'' (PDict []) = PDict ans"
    and positive: "dict_get ans ''result'' (PStr NOT_FOUND) \<noteq> PStr NOT_FOUND"
    and rejected: "py_int env (dict_get ans ''ttl'' (PInt 60)) = Inl e"
  shows "fst (handle_request env w hostname qtype_name) = Some e
         \<and> table (snd (handle_request env w hostname qtype_name)) = table w
         \<and> printed (snd (handle_request env w hostname qtype_name)) = printed w"
  using positive rejected by (simp add: handle_request_correlated [OF miss corr ans])

text \<open>The answer for \<^verbatim>\<open>e.com\<close> with the ttl \<^verbatim>\<open>null\<close>, into an empty cache.\<close>

theorem bad_ttl_raises_witness:
  "fst (handle_request
     (example_env (Inr ''reply'')
        (Some (PDict [(''id'', PInt 3487918203), (''flag'', PStr ''0001''),
                      (''answer'', PDict [(''name'', PStr ''e.com''), (''type'', PStr ''A''),
                                          (''result'', PStr ''5.6.7.8''), (''ttl'', PNone)])])))
     empty_world ''e.com'' ''A'') = Some TypeError
   \<and> table (snd (handle_request
     (example_env (Inr ''reply'')
        (Some (PDict [(''id'', PInt 3487918203), (''flag'', PStr ''0001''),
                      (''answer'', PDict [(''name'', PStr ''e.com''), (''type'', PStr ''A''),
                                          (''result'', PStr ''5.6.7.8''), (''ttl'', PNone)])])))
     empty_world ''e.com'' ''A'')) = RRTable_init
   \<and> printed (snd (handle_request
     (example_env (Inr ''reply'')
        (Some (PDict [(''id'', PInt 3487918203), (''flag'', PStr ''0001''),
                      (''answer'', PDict [(''name'', PStr ''e.com''), (''type'', PStr ''A''),
                                          (''result'', PStr ''5.6.7.8''), (''ttl'', PNone)])])))
     empty_world ''e.com'' ''A'')) = []"
proof -
  let ?a = "[(''name'', PStr ''e.com''), (''type'', PStr ''A''),
             (''result'', PStr ''5.6.7.8''), (''ttl'', PNone)]"
  let ?kvs = "[(''id'', PInt 3487918203), (''flag'', PStr ''0001''), (''answer'', PDict ?a)]"
  let ?env = "example_env (Inr ''reply'') (Some (PDict ?kvs))"
  have miss: "fst (get_record (table empty_world) ''e.com'' ''A'') = None"
    by (simp add: empty_world_def RRTable_init_def get_record_def)
  have corr: "correlated ?env ?kvs"
    by (simp add: correlated_def dict_get_def RESP_FLAG_def) (simp add: example_env_def)
  have ans: "dict_get ?kvs ''answer'' (PDict []) = PDict ?a"
    by (simp add: dict_get_def)
  have positive: "dict_get ?a ''result'' (PStr NOT_FOUND) \<noteq> PStr NOT_FOUND"
    by (simp add: dict_get_def NOT_FOUND_def)
  have rejected: "py_int ?env (dict_get ?a ''ttl'' (PInt 60)) = Inl TypeError"
    by (simp add: dict_get_def)
  from bad_ttl_raises [OF miss corr ans positive rejected] show ?thesis
    by (simp add: empty_world_def)
qed




text \<open>
  Claim C10 does not hold on the code. On a cache miss followed by a correlated reply
  whose \<^verbatim>\<open>answer\<close> is present and not an object (\<^verbatim>\<open>null\<close>, a number, a string,
  a list), \<^verbatim>\<open>ans.get\<close> raises \<^verbatim>\<open>AttributeError\<close>, which leaves the call: the table
  is unchanged and nothing is printed. The claim has such a reply, which has no answer
  object, treated as a negative answer with no error raised.
\<close>

theorem answer_not_object_raises:
  assumes miss: "fst (get_record (table w) hostname qtype_name) = None"
    and corr: "correlated env kvs"
    and no_object: "\<not> is_dict (dict_get kvs ''answer'' (PDict []))"
  shows "fst (handle_request env w hostname qtype_name) = Some AttributeError
         \<and> table (snd (handle_request env w hostname qtype_name)) = table w
         \<and> printed (snd (handle_request env w hostname qtype_name)) = printed w"
  by (simp add: handle_request_answer_not_dict [OF miss corr no_object])

text \<open>A reply whose answer is \<^verbatim>\<open>null\<close>, on an empty cache.\<close>

theorem answer_not_object_raises_witness:
  "fst (handle_request
     (example_env (Inr ''reply'')
        (Some (PDict [(''id'', PInt 3487918203), (''flag'', PStr ''0001''),
                      (''answer'', PNone)])))
     empty_world ''e.com'' ''A'') = Some AttributeError
   \<and> table (snd (handle_request
     (example_env (Inr ''reply'')
        (Some (PDict [(''id'', PInt 3487918203), (''flag'', PStr ''0001''),
                      (''answer'', PNone)])))
     empty_world ''e.com'' ''A'')) = RRTable_init
   \<and> printed (snd (handle_request
     (example_env (Inr ''reply'')
        (Some (PDict [(''id'', PInt 3487918203), (''flag'', PStr ''0001''),
                      (''answer'', PNone)])))
     empty_world ''e.com'' ''A'')) = []"
proof -
  let ?kvs = "[(''id'', PInt 3487918203), (''flag'', PStr ''0001''), (''answer'', PNone)]"
  let ?env = "example_env (Inr ''reply'') (Some (PDict ?kvs))"
  have miss: "fst (get_record (table empty_world) ''e.com'' ''A'') = None"
    by (simp add: empty_world_def RRTable_init_def get_record_def)
  have corr: "correlated ?env ?kvs"
    by (simp add: correlated_def dict_get_def RESP_FLAG_def) (simp add: example_env_def)
  have no_object: "\<not> is_dict (dict_get ?kvs ''answer'' (PDict []))"
    by (simp add: dict_get_def)
  from answer_not_object_raises [OF miss corr no_object] show ?thesis
    by (simp add: empty_world_def)
qed

end
